theory Spec2Isabelle
  imports Complex_Main
begin

section \<open>Python values used by the service\<close>

text \<open>
  A Python \<open>str\<close> is a sequence of Unicode code points, and \<open>len\<close>, slicing,
  \<open>strip\<close> and \<open>split\<close> all count code points. A text is therefore a list of
  code points; the string literals of \<open>app.py\<close> are ASCII and are written with
  \<open>lit\<close>.
\<close>

type_synonym codepoint = nat
type_synonym pystr = "codepoint list"

definition lit :: "string \<Rightarrow> pystr" where
  "lit s = map of_char s"

text \<open>
  The characters that \<open>str.strip()\<close> and \<open>str.split()\<close> (both called without an
  argument) treat as whitespace, the code points on which \<open>str.isspace\<close> is true:
  tab to carriage return, the four separators before the space, the space, and
  the spaces and line separators outside ASCII.
\<close>

definition isspace :: "codepoint \<Rightarrow> bool" where
  "isspace c \<longleftrightarrow>
     (9 \<le> c \<and> c \<le> 13) \<or> (28 \<le> c \<and> c \<le> 32) \<or> c = 133 \<or> c = 160 \<or> c = 5760 \<or>
     (8192 \<le> c \<and> c \<le> 8202) \<or> c = 8232 \<or> c = 8233 \<or> c = 8239 \<or> c = 8287 \<or>
     c = 12288"

definition strip :: "pystr \<Rightarrow> pystr" where
  "strip t = rev (dropWhile isspace (rev (dropWhile isspace t)))"

text \<open>
  \<open>text.split()\<close>: skip a run of whitespace, stop at the end of the text, otherwise
  take the run of non-whitespace as the next token and go on behind it.
\<close>

function split :: "pystr \<Rightarrow> pystr list" where
  "split t =
     (case dropWhile isspace t of
        [] \<Rightarrow> []
      | c # cs \<Rightarrow>
          (c # takeWhile (\<lambda>x. \<not> isspace x) cs) # split (dropWhile (\<lambda>x. \<not> isspace x) cs))"
  by pat_completeness auto
termination
proof (relation "measure length")
  show "wf (measure length)" by simp
next
  fix t :: pystr and c cs
  assume a: "dropWhile isspace t = c # cs"
  have "length (dropWhile (\<lambda>x. \<not> isspace x) cs) \<le> length cs"
    by (rule length_dropWhile_le)
  moreover have "length (c # cs) \<le> length t"
    using length_dropWhile_le [of isspace t] by (simp add: a)
  ultimately show "(dropWhile (\<lambda>x. \<not> isspace x) cs, t) \<in> measure length"
    by simp
qed

declare split.simps [simp del]

text \<open>
  \<open>str(n)\<close> of an integer, as the f-string \<open>f"{round(...)} min read"\<close> renders it.
\<close>

function digits :: "nat \<Rightarrow> pystr" where
  "digits n = (if n < 10 then [48 + n] else digits (n div 10) @ [48 + n mod 10])"
  by pat_completeness auto
termination
  by (relation "measure id") auto

definition str_int :: "int \<Rightarrow> pystr" where
  "str_int i = (if i < 0 then 45 # digits (nat (- i)) else digits (nat i))"

subsection \<open>Floats\<close>

text \<open>
  A finite \<open>float\<close> is the rational number it denotes; comparisons of floats are
  comparisons of these numbers. The literals \<open>0.3\<close>, \<open>0.7\<close> and \<open>0.5\<close> of the
  source denote the IEEE-754 doubles nearest to them, which are the rationals below
  (\<open>0.5\<close> is exact). Not-a-number is not modelled: the scores are averages of
  lexicon entries in \<open>[-1, 1]\<close> and \<open>[0, 1]\<close>.
\<close>

definition float_0_3 :: rat where
  "float_0_3 = 5404319552844595 / 18014398509481984"

definition float_0_7 :: rat where
  "float_0_7 = 3152519739159347 / 4503599627370496"

definition float_0_5 :: rat where
  "float_0_5 = 1 / 2"

text \<open>
  \<open>round(x)\<close> with one argument returns an \<open>int\<close> and rounds a tie to the even
  neighbour.
\<close>

definition py_round :: "rat \<Rightarrow> int" where
  "py_round x =
     (let f = \<lfloor>x\<rfloor>; d = x - of_int f
      in if d < 1 / 2 then f
         else if 1 / 2 < d then f + 1
         else if even f then f else f + 1)"

text \<open>
  \<open>round(x, 2)\<close> rounds the exact value of the double to two decimal places, a tie
  to the even neighbour, and returns the double nearest to that decimal. The model
  keeps the decimal \<open>k / 100\<close> itself: it has the sign of the double, and it is the
  number that the JSON response prints.
\<close>

definition py_round2 :: "rat \<Rightarrow> rat" where
  "py_round2 x = of_int (py_round (x * 100)) / 100"

section \<open>Derived fields\<close>

text \<open>
  Lines 64 to 71 of \<open>analyze\<close> and lines 108 to 115 of \<open>analyze_local\<close> are the
  same statements; each is a function here, named after the variable it assigns.
\<close>

definition sentiment_of :: "rat \<Rightarrow> pystr" where
  "sentiment_of polarity =
     (if 0 < polarity then lit ''Positive''
      else if polarity < 0 then lit ''Negative''
      else lit ''Neutral'')"

definition bias_of :: "rat \<Rightarrow> pystr" where
  "bias_of subjectivity =
     (if subjectivity < float_0_3 then lit ''Low''
      else if subjectivity < float_0_7 then lit ''Moderate''
      else lit ''High'')"

definition credibility_of :: "rat \<Rightarrow> pystr" where
  "credibility_of subjectivity =
     (if subjectivity < float_0_5 then lit ''True'' else lit ''False'')"

definition word_count_of :: "pystr \<Rightarrow> nat" where
  "word_count_of t = length (split t)"

text \<open>
  \<open>word_count / 200\<close> is the double nearest to the exact quotient. Below
  \<open>2 ^ 53\<close> words the double is within \<open>2 ^ -8\<close> of the quotient, while the quotient
  is a half-integer (then the double is exact) or at least \<open>1 / 200\<close> away from
  one, so \<open>round\<close> gives the same integer on both.
\<close>

definition reading_minutes :: "nat \<Rightarrow> int" where
  "reading_minutes word_count = py_round (of_nat word_count / 200)"

definition reading_time_of :: "nat \<Rightarrow> pystr" where
  "reading_time_of word_count = str_int (reading_minutes word_count) @ lit '' min read''"

section \<open>Requests, collaborators and responses\<close>

text \<open>
  The value that \<open>request.get_json()\<close> returns: \<open>None\<close> or parsed JSON. An
  object is a \<open>dict\<close>, written as the list of its items (the keys are distinct).
\<close>

datatype json =
    JNull
  | JBool bool
  | JInt int
  | JFloat rat
  | JStr pystr
  | JArr "json list"
  | JObj "(pystr \<times> json) list"

text \<open>Truth value of a Python object, as \<open>not url\<close> tests it.\<close>

fun truthy :: "json \<Rightarrow> bool" where
  "truthy JNull = False"
| "truthy (JBool b) = b"
| "truthy (JInt i) = (i \<noteq> 0)"
| "truthy (JFloat x) = (x \<noteq> 0)"
| "truthy (JStr s) = (s \<noteq> [])"
| "truthy (JArr xs) = (xs \<noteq> [])"
| "truthy (JObj kvs) = (kvs \<noteq> [])"

fun type_name :: "json \<Rightarrow> string" where
  "type_name JNull = ''NoneType''"
| "type_name (JBool b) = ''bool''"
| "type_name (JInt i) = ''int''"
| "type_name (JFloat x) = ''float''"
| "type_name (JStr s) = ''str''"
| "type_name (JArr xs) = ''list''"
| "type_name (JObj kvs) = ''dict''"

text \<open>
  An exception is the message \<open>str(e)\<close> it carries; a computation that may raise
  returns \<open>Inl\<close> of the message. \<open>data.get('url')\<close> raises AttributeError unless
  \<open>data\<close> is a dict, and gives \<open>None\<close> for a missing key.
\<close>

type_synonym exn = pystr

definition attribute_error :: "json \<Rightarrow> exn" where
  "attribute_error v =
     lit ([CHR 0x27] @ type_name v @ [CHR 0x27] @ '' object has no attribute '' @
          [CHR 0x27] @ ''get'' @ [CHR 0x27])"

definition get_url :: "json \<Rightarrow> exn + json" where
  "get_url data =
     (case data of
        JObj kvs \<Rightarrow> Inr (case map_of kvs (lit ''url'') of None \<Rightarrow> JNull | Some v \<Rightarrow> v)
      | _ \<Rightarrow> Inl (attribute_error data))"

text \<open>
  What the article library leaves in the \<open>Article\<close> object after \<open>download()\<close>,
  \<open>parse()\<close> and \<open>nlp()\<close>, and what \<open>TextBlob\<close> computes.
\<close>

record article =
  art_title :: pystr
  art_authors :: "pystr list"
  art_text :: pystr
  art_summary :: pystr

record blob =
  blob_polarity :: rat
  blob_subjectivity :: rat

text \<open>
  The two libraries are not part of the repository; the handlers are written over
  any behaviour of theirs. \<open>fetch url\<close> stands for \<open>Article(url)\<close> followed by
  \<open>download()\<close>, \<open>parse()\<close> and \<open>nlp()\<close>; \<open>textblob t\<close> for \<open>TextBlob(t)\<close> and the
  reading of its \<open>polarity\<close> and \<open>subjectivity\<close>. Either may raise.
\<close>

record collaborators =
  fetch :: "json \<Rightarrow> exn + article"
  textblob :: "pystr \<Rightarrow> exn + blob"

record response =
  title :: pystr
  author :: pystr
  summary :: pystr
  sentiment :: pystr
  polarity :: rat
  bias :: pystr
  credibility :: pystr
  word_count :: nat
  reading_time :: pystr

text \<open>
  The JSON bodies: \<open>{'error': msg}\<close> or the response dict. A handler returns the
  pair of the body and the status code.
\<close>

datatype body = Error pystr | Analysis response

type_synonym http_result = "body \<times> nat"

fun join :: "pystr \<Rightarrow> pystr list \<Rightarrow> pystr" where
  "join sep [] = []"
| "join sep [x] = x"
| "join sep (x # y # ys) = x @ sep @ join sep (y # ys)"

section \<open>The handler of POST /analyze\<close>

text \<open>
  \<open>analyze_try\<close> is the body of the \<open>try\<close> block: \<open>Inl\<close> when a statement
  raises, \<open>Inr\<close> of the returned pair otherwise. The argument \<open>req\<close> is the outcome
  of \<open>request.get_json()\<close>, which raises or returns a value.
\<close>

definition analyze_try :: "collaborators \<Rightarrow> exn + json \<Rightarrow> exn + http_result" where
  "analyze_try env req =
     (case req of
        Inl e \<Rightarrow> Inl e
      | Inr data \<Rightarrow>
     (case get_url data of
        Inl e \<Rightarrow> Inl e
      | Inr url \<Rightarrow>
          if \<not> truthy url then Inr (Error (lit ''No URL provided''), 400)
          else
     (case fetch env url of
        Inl e \<Rightarrow> Inl e
      | Inr art \<Rightarrow>
          if art_text art = [] then Inr (Error (lit ''Unable to fetch article content''), 400)
          else
     (case textblob env (art_text art) of
        Inl e \<Rightarrow> Inl e
      | Inr analysis \<Rightarrow>
          Inr (Analysis
            \<lparr> title = (if art_title art \<noteq> [] then art_title art else lit ''N/A''),
              author = (if art_authors art \<noteq> [] then join (lit '', '') (art_authors art)
                        else lit ''N/A''),
              summary = (if art_summary art \<noteq> [] then art_summary art else lit ''N/A''),
              sentiment = sentiment_of (py_round2 (blob_polarity analysis)),
              polarity = py_round2 (blob_polarity analysis),
              bias = bias_of (blob_subjectivity analysis),
              credibility = credibility_of (blob_subjectivity analysis),
              word_count = word_count_of (art_text art),
              reading_time = reading_time_of (word_count_of (art_text art)) \<rparr>, 200)))))"

definition analyze :: "collaborators \<Rightarrow> exn + json \<Rightarrow> http_result" where
  "analyze env req =
     (case analyze_try env req of
        Inl e \<Rightarrow> (Error (lit ''Failed to analyze article: '' @ e), 500)
      | Inr r \<Rightarrow> r)"

section \<open>The handler of GET /analyze\_local\<close>

text \<open>
  The sample file as the handler meets it: \<open>os.path.exists\<close> is false, or the file
  exists and \<open>open\<close> or \<open>read\<close> raises, or \<open>read\<close> returns the decoded text.
\<close>

datatype sample_file = Absent | Unreadable exn | Contents pystr

definition analyze_local_try :: "collaborators \<Rightarrow> sample_file \<Rightarrow> exn + http_result" where
  "analyze_local_try env file =
     (case file of
        Absent \<Rightarrow> Inr (Error (lit ''sample_article.txt not found''), 400)
      | Unreadable e \<Rightarrow> Inl e
      | Contents t \<Rightarrow>
          if strip t = [] then Inr (Error (lit ''sample article is empty''), 400)
          else
     (case textblob env t of
        Inl e \<Rightarrow> Inl e
      | Inr analysis \<Rightarrow>
          Inr (Analysis
            \<lparr> title = lit ''Sample Article'',
              author = lit ''Local Test'',
              summary = take 300 t @ (if 300 < length t then lit ''...'' else lit ''''),
              sentiment = sentiment_of (py_round2 (blob_polarity analysis)),
              polarity = py_round2 (blob_polarity analysis),
              bias = bias_of (blob_subjectivity analysis),
              credibility = credibility_of (blob_subjectivity analysis),
              word_count = word_count_of t,
              reading_time = reading_time_of (word_count_of t) \<rparr>, 200)))"

definition analyze_local :: "collaborators \<Rightarrow> sample_file \<Rightarrow> http_result" where
  "analyze_local env file =
     (case analyze_local_try env file of
        Inl e \<Rightarrow> (Error e, 500)
      | Inr r \<Rightarrow> r)"

section \<open>Successful runs\<close>

text \<open>
  A successful run of a handler, together with what the collaborators gave it:
  \<open>local_run env t a r\<close> says that \<open>analyze_local\<close> read the text \<open>t\<close>, got
  the scores \<open>a\<close> for it and answered 200 with \<open>r\<close>; \<open>url_run env data art a r\<close>
  says that \<open>analyze\<close> received the JSON value \<open>data\<close>, extracted the article
  \<open>art\<close> from its url, got the scores \<open>a\<close> for the article's text and answered
  200 with \<open>r\<close>.
\<close>

definition local_run :: "collaborators \<Rightarrow> pystr \<Rightarrow> blob \<Rightarrow> response \<Rightarrow> bool" where
  "local_run env t a r \<longleftrightarrow>
     textblob env t = Inr a \<and> analyze_local env (Contents t) = (Analysis r, 200)"

definition url_run :: "collaborators \<Rightarrow> json \<Rightarrow> article \<Rightarrow> blob \<Rightarrow> response \<Rightarrow> bool" where
  "url_run env data art a r \<longleftrightarrow>
     (case get_url data of Inl e \<Rightarrow> False | Inr url \<Rightarrow> fetch env url = Inr art) \<and>
     textblob env (art_text art) = Inr a \<and>
     analyze env (Inr data) = (Analysis r, 200)"

section \<open>Example collaborators\<close>

text \<open>
  Collaborators for the concrete runs below: every url yields the article \<open>art\<close>,
  except that \<open>http://down\<close> raises; every text gets the scores \<open>p\<close> and \<open>s\<close>.
\<close>

definition stub_env :: "article \<Rightarrow> rat \<Rightarrow> rat \<Rightarrow> collaborators" where
  "stub_env art p s =
     \<lparr> fetch = (\<lambda>url. if url = JStr (lit ''http://down'') then Inl (lit ''timed out'')
                       else Inr art),
       textblob = (\<lambda>t. Inr \<lparr> blob_polarity = p, blob_subjectivity = s \<rparr>) \<rparr>"

definition good_news :: article where
  "good_news =
     \<lparr> art_title = lit ''Good news'',
       art_authors = [lit ''A. Writer'', lit ''B. Editor''],
       art_text = lit ''Good news today.'',
       art_summary = lit ''Good news.'' \<rparr>"

definition untitled :: article where
  "untitled =
     \<lparr> art_title = [], art_authors = [], art_text = lit ''Good news today.'',
       art_summary = [] \<rparr>"

definition no_text :: article where
  "no_text = \<lparr> art_title = lit ''Empty'', art_authors = [], art_text = [], art_summary = [] \<rparr>"

definition url_request :: "string \<Rightarrow> exn + json" where
  "url_request u = Inr (JObj [(lit ''url'', JStr (lit u))])"

section \<open>Rounding\<close>

lemma py_round_lower: "\<lfloor>x\<rfloor> \<le> py_round x"
  by (simp add: py_round_def Let_def)

lemma py_round_upper: "py_round x \<le> \<lfloor>x\<rfloor> + 1"
  by (simp add: py_round_def Let_def)

lemma py_round_mono: "x \<le> y \<Longrightarrow> py_round x \<le> py_round y"
proof (cases "\<lfloor>x\<rfloor> = \<lfloor>y\<rfloor>")
  case True
  assume "x \<le> y"
  then have "x - of_int \<lfloor>y\<rfloor> \<le> y - of_int \<lfloor>y\<rfloor>" by simp
  then show ?thesis
    using True by (auto simp add: py_round_def Let_def)
next
  case False
  assume "x \<le> y"
  then have "\<lfloor>x\<rfloor> \<le> \<lfloor>y\<rfloor>" by (rule floor_mono)
  with False have "\<lfloor>x\<rfloor> + 1 \<le> \<lfloor>y\<rfloor>" by simp
  then show ?thesis
    using py_round_upper [of x] py_round_lower [of y] by linarith
qed

lemma py_round_pos_iff: "0 < py_round x \<longleftrightarrow> 1 / 2 < x"
proof -
  consider "x < 0" | "0 \<le> x" "x < 1" | "1 \<le> x" by linarith
  then show ?thesis
  proof cases
    case 1
    then have "\<lfloor>x\<rfloor> \<le> -1" by (simp add: floor_le_iff)
    then show ?thesis using py_round_upper [of x] 1 by linarith
  next
    case 2
    then have "\<lfloor>x\<rfloor> = 0" by (simp add: floor_eq_iff)
    then show ?thesis by (auto simp add: py_round_def Let_def)
  next
    case 3
    then have "1 \<le> \<lfloor>x\<rfloor>" by (simp add: le_floor_iff)
    then show ?thesis using py_round_lower [of x] 3 by linarith
  qed
qed

lemma py_round_neg_iff: "py_round x < 0 \<longleftrightarrow> x < - (1 / 2)"
proof -
  consider "x < -1" | "-1 \<le> x" "x < 0" | "0 \<le> x" by linarith
  then show ?thesis
  proof cases
    case 1
    then have "\<lfloor>x\<rfloor> \<le> -2" by (simp add: floor_le_iff)
    then show ?thesis using py_round_upper [of x] 1 by linarith
  next
    case 2
    then have "\<lfloor>x\<rfloor> = -1" by (simp add: floor_eq_iff)
    then show ?thesis by (auto simp add: py_round_def Let_def)
  next
    case 3
    then have "0 \<le> \<lfloor>x\<rfloor>" by simp
    then show ?thesis using py_round_lower [of x] 3 by linarith
  qed
qed

lemma py_round2_pos_iff: "0 < py_round2 p \<longleftrightarrow> 1 / 200 < p"
proof -
  have "0 < py_round2 p \<longleftrightarrow> 0 < py_round (p * 100)"
    by (simp add: py_round2_def)
  also have "\<dots> \<longleftrightarrow> 1 / 2 < p * 100"
    by (rule py_round_pos_iff)
  also have "\<dots> \<longleftrightarrow> 1 / 200 < p"
    by linarith
  finally show ?thesis .
qed

lemma py_round2_neg_iff: "py_round2 p < 0 \<longleftrightarrow> p < - (1 / 200)"
proof -
  have "py_round2 p < 0 \<longleftrightarrow> py_round (p * 100) < 0"
    by (simp add: py_round2_def)
  also have "\<dots> \<longleftrightarrow> p * 100 < - (1 / 2)"
    by (rule py_round_neg_iff)
  also have "\<dots> \<longleftrightarrow> p < - (1 / 200)"
    by linarith
  finally show ?thesis .
qed

section \<open>Whitespace\<close>

lemma dropWhile_isspace_Nil: "dropWhile isspace t = [] \<longleftrightarrow> (\<forall>c \<in> set t. isspace c)"
  by (rule dropWhile_eq_Nil_conv)

lemma strip_empty_iff: "strip t = [] \<longleftrightarrow> (\<forall>c \<in> set t. isspace c)"
proof (cases "dropWhile isspace t")
  case Nil
  have "strip t = []"
    by (simp only: strip_def Nil rev.simps dropWhile.simps)
  moreover have "\<forall>c \<in> set t. isspace c"
    using Nil dropWhile_isspace_Nil [of t] by blast
  ultimately show ?thesis by blast
next
  case (Cons c cs)
  have c: "\<not> isspace c"
    using hd_dropWhile [of isspace t] Cons by auto
  have "rev (dropWhile isspace t) = rev cs @ [c]"
    by (simp only: Cons rev.simps)
  then have "dropWhile isspace (rev (dropWhile isspace t)) \<noteq> []"
    using c by (auto simp add: dropWhile_append)
  then have "strip t \<noteq> []"
    by (simp only: strip_def rev_is_Nil_conv not_False_eq_True)
  moreover have "\<not> (\<forall>c \<in> set t. isspace c)"
    using Cons dropWhile_isspace_Nil [of t] by auto
  ultimately show ?thesis by blast
qed

lemma split_empty_iff: "split t = [] \<longleftrightarrow> (\<forall>c \<in> set t. isspace c)"
proof (cases "dropWhile isspace t")
  case Nil
  have "split t = []"
    by (subst split.simps) (simp only: Nil list.case)
  moreover have "\<forall>c \<in> set t. isspace c"
    using Nil dropWhile_isspace_Nil [of t] by blast
  ultimately show ?thesis by blast
next
  case (Cons c cs)
  have "split t \<noteq> []"
    by (subst split.simps) (simp only: Cons list.case list.distinct not_False_eq_True)
  moreover have "\<not> (\<forall>c \<in> set t. isspace c)"
    using Cons dropWhile_isspace_Nil [of t] by auto
  ultimately show ?thesis by blast
qed

lemma word_count_pos: "strip t \<noteq> [] \<Longrightarrow> 1 \<le> word_count_of t"
proof -
  assume "strip t \<noteq> []"
  then have "split t \<noteq> []"
    using strip_empty_iff [of t] split_empty_iff [of t] by blast
  then show ?thesis
    by (cases "split t") (simp_all add: word_count_of_def)
qed

section \<open>Labels\<close>

lemma labels_distinct:
  "lit ''Positive'' \<noteq> lit ''Negative''" "lit ''Positive'' \<noteq> lit ''Neutral''"
  "lit ''Negative'' \<noteq> lit ''Neutral''"
  "lit ''Low'' \<noteq> lit ''Moderate''" "lit ''Low'' \<noteq> lit ''High''"
  "lit ''Moderate'' \<noteq> lit ''High''" "lit ''True'' \<noteq> lit ''False''"
  by (simp_all add: lit_def)

lemma float_order: "float_0_3 < float_0_7"
  by (simp add: float_0_3_def float_0_7_def)

text \<open>
  The two literals are the doubles nearest to \<open>3 / 10\<close> and \<open>7 / 10\<close>: multiples
  of the spacing of the doubles around them, \<open>2 ^ -54\<close> and \<open>2 ^ -53\<close>, and within
  half of that spacing.
\<close>

lemma float_literals:
  "float_0_3 = 5404319552844595 / 2 ^ 54" "\<bar>float_0_3 - 3 / 10\<bar> < 1 / 2 ^ 55"
  "float_0_7 = 6305039478318694 / 2 ^ 53" "\<bar>float_0_7 - 7 / 10\<bar> < 1 / 2 ^ 54"
  by (simp_all add: float_0_3_def float_0_7_def)

lemma bias_of_cases:
  "(bias_of s = lit ''Low'' \<longleftrightarrow> s < float_0_3) \<and>
   (bias_of s = lit ''Moderate'' \<longleftrightarrow> float_0_3 \<le> s \<and> s < float_0_7) \<and>
   (bias_of s = lit ''High'' \<longleftrightarrow> float_0_7 \<le> s)"
  using float_order labels_distinct by (auto simp add: bias_of_def)

lemma credibility_of_cases:
  "(credibility_of s = lit ''True'' \<longleftrightarrow> s < float_0_5) \<and>
   (credibility_of s = lit ''False'' \<longleftrightarrow> float_0_5 \<le> s)"
  using labels_distinct by (auto simp add: credibility_of_def)

lemma sentiment_of_cases:
  "(sentiment_of p = lit ''Positive'' \<longleftrightarrow> 0 < p) \<and>
   (sentiment_of p = lit ''Negative'' \<longleftrightarrow> p < 0) \<and>
   (sentiment_of p = lit ''Neutral'' \<longleftrightarrow> p = 0)"
  using labels_distinct by (auto simp add: sentiment_of_def)

section \<open>What a successful run returns\<close>

lemma local_run_fields:
  assumes "local_run env t a r"
  shows "strip t \<noteq> []"
    and "title r = lit ''Sample Article''"
    and "author r = lit ''Local Test''"
    and "summary r = take 300 t @ (if 300 < length t then lit ''...'' else lit '''')"
    and "sentiment r = sentiment_of (py_round2 (blob_polarity a))"
    and "polarity r = py_round2 (blob_polarity a)"
    and "bias r = bias_of (blob_subjectivity a)"
    and "credibility r = credibility_of (blob_subjectivity a)"
    and "word_count r = word_count_of t"
    and "reading_time r = reading_time_of (word_count_of t)"
  using assms
  by (auto simp add: local_run_def analyze_local_def analyze_local_try_def split: if_splits)

lemma url_run_fields:
  assumes "url_run env data art a r"
  shows "art_text art \<noteq> []"
    and "title r = (if art_title art \<noteq> [] then art_title art else lit ''N/A'')"
    and "author r = (if art_authors art \<noteq> [] then join (lit '', '') (art_authors art)
                     else lit ''N/A'')"
    and "summary r = (if art_summary art \<noteq> [] then art_summary art else lit ''N/A'')"
    and "sentiment r = sentiment_of (py_round2 (blob_polarity a))"
    and "polarity r = py_round2 (blob_polarity a)"
    and "bias r = bias_of (blob_subjectivity a)"
    and "credibility r = credibility_of (blob_subjectivity a)"
    and "word_count r = word_count_of (art_text art)"
    and "reading_time r = reading_time_of (word_count_of (art_text art))"
  using assms
  by (auto simp add: url_run_def analyze_def analyze_try_def split: if_splits sum.splits)

section \<open>Concrete runs\<close>

lemma py_round_small: "- (1 / 2) \<le> x \<Longrightarrow> x \<le> 1 / 2 \<Longrightarrow> py_round x = 0"
  using py_round_pos_iff [of x] py_round_neg_iff [of x] by linarith

lemma py_round2_small: "- (1 / 200) \<le> p \<Longrightarrow> p \<le> 1 / 200 \<Longrightarrow> py_round2 p = 0"
  by (simp add: py_round2_def py_round_small)

lemma strip_good_news: "strip (lit ''Good news today.'') \<noteq> []"
  by (simp add: strip_empty_iff lit_def isspace_def)

lemma split_good_news: "word_count_of (lit ''Good news today.'') = 3"
  by (simp add: word_count_of_def lit_def isspace_def split.simps)

lemma minutes_3: "reading_time_of 3 = lit ''0 min read''"
  by (simp add: reading_time_of_def reading_minutes_def py_round_small str_int_def lit_def)

lemma stub_local_run:
  "strip t \<noteq> [] \<Longrightarrow>
   \<exists>r. local_run (stub_env art p s) t \<lparr> blob_polarity = p, blob_subjectivity = s \<rparr> r"
  by (simp add: local_run_def stub_env_def analyze_local_def analyze_local_try_def)

lemma stub_url_run:
  "art_text art \<noteq> [] \<Longrightarrow> u \<noteq> [] \<Longrightarrow> u \<noteq> lit ''http://down'' \<Longrightarrow>
   \<exists>r. url_run (stub_env art p s) (JObj [(lit ''url'', JStr u)]) art
         \<lparr> blob_polarity = p, blob_subjectivity = s \<rparr> r"
  by (simp add: url_run_def stub_env_def analyze_def analyze_try_def get_url_def)

section \<open>The labels\<close>

text \<open>
  Claim C1, as stated, speaks of the polarity that the sentiment analysis produces.
  The handler rounds that score to two decimals first and labels the rounded value:
  the score \<open>1 / 256\<close> is positive, rounds to \<open>0.0\<close>, and the response says
  \<open>Neutral\<close>.
\<close>

theorem sentiment_raw_counterexample:
  "textblob (stub_env good_news (1 / 256) (1 / 4)) (lit ''Good news today.'') =
     Inr \<lparr> blob_polarity = 1 / 256, blob_subjectivity = 1 / 4 \<rparr> \<and>
   (0 :: rat) < 1 / 256 \<and>
   analyze_local (stub_env good_news (1 / 256) (1 / 4)) (Contents (lit ''Good news today.'')) =
     (Analysis
        \<lparr> title = lit ''Sample Article'', author = lit ''Local Test'',
          summary = lit ''Good news today.'', sentiment = lit ''Neutral'', polarity = 0,
          bias = lit ''Low'', credibility = lit ''True'', word_count = 3,
          reading_time = lit ''0 min read'' \<rparr>, 200) \<and>
   lit ''Neutral'' \<noteq> lit ''Positive''"
proof -
  have p: "py_round2 (1 / 256) = 0"
    by (rule py_round2_small) simp_all
  have b: "bias_of (1 / 4) = lit ''Low''"
    by (simp add: bias_of_def float_0_3_def)
  have c: "credibility_of (1 / 4) = lit ''True''"
    by (simp add: credibility_of_def float_0_5_def)
  have s: "sentiment_of 0 = lit ''Neutral''"
    by (simp add: sentiment_of_def)
  have n: "lit ''Neutral'' \<noteq> lit ''Positive''"
    by (simp add: lit_def)
  have l: "take 300 (lit ''Good news today.'') @ lit '''' = lit ''Good news today.''"
    by (simp add: lit_def)
  have len: "\<not> 300 < length (lit ''Good news today.'')"
    by (simp add: lit_def)
  show ?thesis
    using strip_good_news n
    by (simp add: analyze_local_def analyze_local_try_def stub_env_def p b c s l len
        split_good_news minutes_3)
qed

text \<open>
  Claim C1, amended: in every successful response of either handler the polarity
  field is the score rounded to two decimals, and the sentiment label is
  \<open>Positive\<close> iff that field is above zero, \<open>Negative\<close> iff it is below zero and
  \<open>Neutral\<close> iff it is zero. In terms of the score itself the label is \<open>Positive\<close>
  iff the score exceeds \<open>0.005\<close> and \<open>Negative\<close> iff it is below \<open>-0.005\<close>.
\<close>

theorem sentiment_label:
  assumes "local_run env t a r \<or> url_run env data art a r"
  shows "polarity r = py_round2 (blob_polarity a) \<and>
         (sentiment r = lit ''Positive'' \<longleftrightarrow> 0 < polarity r) \<and>
         (sentiment r = lit ''Negative'' \<longleftrightarrow> polarity r < 0) \<and>
         (sentiment r = lit ''Neutral'' \<longleftrightarrow> polarity r = 0) \<and>
         (sentiment r = lit ''Positive'' \<longleftrightarrow> 1 / 200 < blob_polarity a) \<and>
         (sentiment r = lit ''Negative'' \<longleftrightarrow> blob_polarity a < - (1 / 200))"
proof -
  have p: "polarity r = py_round2 (blob_polarity a)"
    using assms local_run_fields(6) url_run_fields(6) by blast
  have s: "sentiment r = sentiment_of (polarity r)"
    unfolding p using assms local_run_fields(5) url_run_fields(5) by blast
  have pos: "0 < polarity r \<longleftrightarrow> 1 / 200 < blob_polarity a"
    unfolding p by (rule py_round2_pos_iff)
  have neg: "polarity r < 0 \<longleftrightarrow> blob_polarity a < - (1 / 200)"
    unfolding p by (rule py_round2_neg_iff)
  show ?thesis
    using sentiment_of_cases [of "polarity r"] pos neg p
    unfolding s by blast
qed

theorem sentiment_label_witness:
  "\<exists>r. local_run (stub_env good_news (1 / 2) (1 / 4)) (lit ''Good news today.'')
         \<lparr> blob_polarity = 1 / 2, blob_subjectivity = 1 / 4 \<rparr> r \<and>
       sentiment r = lit ''Positive'' \<and> 0 < polarity r"
proof -
  obtain r where run:
    "local_run (stub_env good_news (1 / 2) (1 / 4)) (lit ''Good news today.'')
       \<lparr> blob_polarity = 1 / 2, blob_subjectivity = 1 / 4 \<rparr> r"
    using stub_local_run [OF strip_good_news] by blast
  note iffs = sentiment_label [OF disjI1, OF run]
  have "sentiment r = lit ''Positive'' \<longleftrightarrow>
        1 / 200 < blob_polarity \<lparr> blob_polarity = 1 / 2, blob_subjectivity = 1 / 4 \<rparr>"
    using iffs by blast
  then have pos: "sentiment r = lit ''Positive''"
    by simp
  then have "0 < polarity r"
    using iffs by blast
  with run pos show ?thesis by blast
qed

text \<open>
  Claim C2: in every successful response of either handler the bias label is \<open>Low\<close>
  iff the subjectivity is below \<open>0.3\<close>, \<open>Moderate\<close> iff it is at least \<open>0.3\<close> and
  below \<open>0.7\<close>, and \<open>High\<close> iff it is at least \<open>0.7\<close>; the label is one of the
  three, and the three conditions exclude each other. The bounds are the floats that
  the source writes \<open>0.3\<close> and \<open>0.7\<close>. The theorem holds for every subjectivity,
  inside \<open>[0, 1]\<close> or not.
\<close>

theorem bias_label:
  assumes "local_run env t a r \<or> url_run env data art a r"
  shows "(bias r = lit ''Low'' \<longleftrightarrow> blob_subjectivity a < float_0_3) \<and>
         (bias r = lit ''Moderate'' \<longleftrightarrow>
            float_0_3 \<le> blob_subjectivity a \<and> blob_subjectivity a < float_0_7) \<and>
         (bias r = lit ''High'' \<longleftrightarrow> float_0_7 \<le> blob_subjectivity a) \<and>
         bias r \<in> {lit ''Low'', lit ''Moderate'', lit ''High''}"
proof -
  have b: "bias r = bias_of (blob_subjectivity a)"
    using assms local_run_fields(7) url_run_fields(7) by blast
  have "bias_of (blob_subjectivity a) \<in> {lit ''Low'', lit ''Moderate'', lit ''High''}"
    by (simp add: bias_of_def)
  then show ?thesis
    unfolding b using bias_of_cases [of "blob_subjectivity a"] by blast
qed

theorem bias_label_witness:
  "\<exists>r. local_run (stub_env good_news (1 / 2) (1 / 4)) (lit ''Good news today.'')
         \<lparr> blob_polarity = 1 / 2, blob_subjectivity = 1 / 4 \<rparr> r \<and>
       bias r = lit ''Low''"
proof -
  obtain r where run:
    "local_run (stub_env good_news (1 / 2) (1 / 4)) (lit ''Good news today.'')
       \<lparr> blob_polarity = 1 / 2, blob_subjectivity = 1 / 4 \<rparr> r"
    using stub_local_run [OF strip_good_news] by blast
  have "(1 / 4 :: rat) < float_0_3"
    by (simp add: float_0_3_def)
  then have "bias r = lit ''Low''"
    using bias_label [OF disjI1, OF run] by simp
  with run show ?thesis by blast
qed

text \<open>
  Claim C3: in every successful response of either handler the credibility label is
  \<open>True\<close> iff the subjectivity is below \<open>0.5\<close>, and \<open>False\<close> iff it is at least
  \<open>0.5\<close>.
\<close>

theorem credibility_label:
  assumes "local_run env t a r \<or> url_run env data art a r"
  shows "(credibility r = lit ''True'' \<longleftrightarrow> blob_subjectivity a < float_0_5) \<and>
         (credibility r = lit ''False'' \<longleftrightarrow> float_0_5 \<le> blob_subjectivity a)"
proof -
  have c: "credibility r = credibility_of (blob_subjectivity a)"
    using assms local_run_fields(8) url_run_fields(8) by blast
  show ?thesis
    unfolding c by (rule credibility_of_cases)
qed

theorem credibility_label_witness:
  "\<exists>r. url_run (stub_env good_news (1 / 2) (1 / 2)) (JObj [(lit ''url'', JStr (lit ''http://x''))])
         good_news \<lparr> blob_polarity = 1 / 2, blob_subjectivity = 1 / 2 \<rparr> r \<and>
       credibility r = lit ''False''"
proof -
  have "art_text good_news \<noteq> []" "lit ''http://x'' \<noteq> []" "lit ''http://x'' \<noteq> lit ''http://down''"
    by (simp_all add: good_news_def lit_def)
  then obtain r where run:
    "url_run (stub_env good_news (1 / 2) (1 / 2)) (JObj [(lit ''url'', JStr (lit ''http://x''))])
       good_news \<lparr> blob_polarity = 1 / 2, blob_subjectivity = 1 / 2 \<rparr> r"
    using stub_url_run by blast
  have "credibility r = lit ''False''"
    using credibility_label [OF disjI2, OF run] by (simp add: float_0_5_def)
  with run show ?thesis by blast
qed

section \<open>Reading time\<close>

text \<open>
  Claim C7: the minutes of the reading time, \<open>round(word_count / 200)\<close> with ties
  to the even neighbour, do not decrease when the word count grows; the reading time
  is that number followed by \<open>min read\<close>.
\<close>

theorem reading_time_monotone:
  assumes "w1 \<le> w2"
  shows "reading_minutes w1 \<le> reading_minutes w2 \<and>
         reading_time_of w1 = str_int (reading_minutes w1) @ lit '' min read'' \<and>
         reading_time_of w2 = str_int (reading_minutes w2) @ lit '' min read''"
proof -
  have "(of_nat w1 :: rat) / 200 \<le> of_nat w2 / 200"
    using assms by (simp add: divide_right_mono)
  then have "reading_minutes w1 \<le> reading_minutes w2"
    unfolding reading_minutes_def by (rule py_round_mono)
  then show ?thesis
    by (simp add: reading_time_of_def)
qed

theorem reading_time_monotone_witness:
  "(100 :: nat) \<le> 300 \<and> reading_minutes 100 \<le> reading_minutes 300"
  using reading_time_monotone [of 100 300] by simp

section \<open>Errors of the url handler\<close>

lemma analyze_raises:
  "analyze_try env req = Inl e \<Longrightarrow>
   analyze env req = (Error (lit ''Failed to analyze article: '' @ e), 500)"
  by (simp add: analyze_def)

lemma analyze_try_status:
  "analyze_try env req = Inr (b, n) \<Longrightarrow>
   (n = 400 \<and> (b = Error (lit ''No URL provided'') \<or>
                 b = Error (lit ''Unable to fetch article content''))) \<or>
   (n = 200 \<and> (\<exists>r. b = Analysis r))"
  by (auto simp add: analyze_try_def split: sum.splits if_splits)

lemma error_messages_distinct:
  "lit ''No URL provided'' \<noteq> lit ''Unable to fetch article content''"
  by (simp add: lit_def)

lemma analyze_no_url_iff:
  "analyze env req = (Error (lit ''No URL provided''), 400) \<longleftrightarrow>
   (\<exists>data url. req = Inr data \<and> get_url data = Inr url \<and> \<not> truthy url)"
  using error_messages_distinct
  by (auto simp add: analyze_def analyze_try_def split: sum.splits if_splits)

lemma analyze_no_text_iff:
  "analyze env req = (Error (lit ''Unable to fetch article content''), 400) \<longleftrightarrow>
   (\<exists>data url art. req = Inr data \<and> get_url data = Inr url \<and> truthy url \<and>
      fetch env url = Inr art \<and> art_text art = [])"
  using error_messages_distinct
  by (auto simp add: analyze_def analyze_try_def split: sum.splits if_splits)

lemma analyze_try_raises_iff:
  "analyze_try env req = Inl e \<longleftrightarrow>
   req = Inl e \<or>
   (\<exists>data. req = Inr data \<and>
      (get_url data = Inl e \<or>
       (\<exists>url. get_url data = Inr url \<and> truthy url \<and>
          (fetch env url = Inl e \<or>
           (\<exists>art. fetch env url = Inr art \<and> art_text art \<noteq> [] \<and>
              textblob env (art_text art) = Inl e)))))"
  by (auto simp add: analyze_try_def split: sum.splits if_splits)

lemma analyze_500_iff:
  "snd (analyze env req) = 500 \<longleftrightarrow> (\<exists>e. analyze_try env req = Inl e)"
proof (cases "analyze_try env req")
  case (Inl e)
  then show ?thesis by (simp add: analyze_def)
next
  case (Inr r)
  obtain b n where r: "r = (b, n)" by (cases r)
  have "n = 400 \<or> n = 200"
    using analyze_try_status [of env req b n] Inr r by auto
  then show ?thesis
    using Inr r by (auto simp add: analyze_def)
qed

lemma analyze_error_body:
  "snd (analyze env req) \<noteq> 200 \<Longrightarrow> \<exists>m. fst (analyze env req) = Error m"
proof (cases "analyze_try env req")
  case (Inl e)
  then show ?thesis by (simp add: analyze_def)
next
  case (Inr r)
  assume n200: "snd (analyze env req) \<noteq> 200"
  obtain b n where r: "r = (b, n)" by (cases r)
  show ?thesis
    using analyze_try_status [of env req b n] Inr r n200 by (auto simp add: analyze_def)
qed

lemma get_url_string_field:
  assumes "\<forall>v. map_of kvs (lit ''url'') = Some v \<longrightarrow> (\<exists>s. v = JStr s)"
  shows "(\<exists>url. get_url (JObj kvs) = Inr url \<and> \<not> truthy url) \<longleftrightarrow>
         map_of kvs (lit ''url'') = None \<or> map_of kvs (lit ''url'') = Some (JStr [])"
  using assms by (auto simp add: get_url_def split: option.splits)

text \<open>
  Claim C4: \<open>analyze\<close> answers 400 with \<open>No URL provided\<close> iff the request's
  url is absent or empty, 400 with \<open>Unable to fetch article content\<close> iff a url was
  given and the extracted text is empty, and 500 with \<open>Failed to analyze article:\<close>
  followed by the exception's message whenever a statement of the handler raises;
  an answer other than 200 is an error body and carries no analysis. The first
  conjunct is the claim for a JSON object whose url, if present, is a string; the
  second says the same for any request through the truth value of the url.
\<close>

theorem analyze_errors:
  "((\<forall>v. map_of kvs (lit ''url'') = Some v \<longrightarrow> (\<exists>s. v = JStr s)) \<longrightarrow>
      (analyze env (Inr (JObj kvs)) = (Error (lit ''No URL provided''), 400) \<longleftrightarrow>
       map_of kvs (lit ''url'') = None \<or> map_of kvs (lit ''url'') = Some (JStr []))) \<and>
   (analyze env req = (Error (lit ''No URL provided''), 400) \<longleftrightarrow>
      (\<exists>data url. req = Inr data \<and> get_url data = Inr url \<and> \<not> truthy url)) \<and>
   (analyze env req = (Error (lit ''Unable to fetch article content''), 400) \<longleftrightarrow>
      (\<exists>data url art. req = Inr data \<and> get_url data = Inr url \<and> truthy url \<and>
         fetch env url = Inr art \<and> art_text art = [])) \<and>
   (analyze_try env req = Inl e \<longrightarrow>
      analyze env req = (Error (lit ''Failed to analyze article: '' @ e), 500)) \<and>
   (snd (analyze env req) = 500 \<longleftrightarrow> (\<exists>e'. analyze_try env req = Inl e')) \<and>
   (analyze_try env req = Inl e \<longleftrightarrow>
      req = Inl e \<or>
      (\<exists>data. req = Inr data \<and>
         (get_url data = Inl e \<or>
          (\<exists>url. get_url data = Inr url \<and> truthy url \<and>
             (fetch env url = Inl e \<or>
              (\<exists>art. fetch env url = Inr art \<and> art_text art \<noteq> [] \<and>
                 textblob env (art_text art) = Inl e)))))) \<and>
   (snd (analyze env req) \<noteq> 200 \<longrightarrow> (\<exists>m. fst (analyze env req) = Error m))"
proof -
  have a: "(\<forall>v. map_of kvs (lit ''url'') = Some v \<longrightarrow> (\<exists>s. v = JStr s)) \<longrightarrow>
      (analyze env (Inr (JObj kvs)) = (Error (lit ''No URL provided''), 400) \<longleftrightarrow>
       map_of kvs (lit ''url'') = None \<or> map_of kvs (lit ''url'') = Some (JStr []))"
    using get_url_string_field [of kvs] analyze_no_url_iff [of env "Inr (JObj kvs)"]
    by auto
  show ?thesis
    using a analyze_no_url_iff [of env req] analyze_no_text_iff [of env req]
      analyze_raises [of env req e] analyze_500_iff [of env req]
      analyze_try_raises_iff [of env req e] analyze_error_body [of env req]
    by blast
qed

theorem analyze_errors_witness:
  "analyze (stub_env no_text 0 0) (url_request '''') =
     (Error (lit ''No URL provided''), 400) \<and>
   analyze (stub_env no_text 0 0) (url_request ''http://x'') =
     (Error (lit ''Unable to fetch article content''), 400) \<and>
   analyze (stub_env no_text 0 0) (url_request ''http://down'') =
     (Error (lit ''Failed to analyze article: timed out''), 500)"
proof -
  let ?env = "stub_env no_text 0 0"
  have str: "\<forall>v. map_of [(lit ''url'', JStr [])] (lit ''url'') = Some v \<longrightarrow> (\<exists>s. v = JStr s)"
    by simp
  have "analyze ?env (Inr (JObj [(lit ''url'', JStr [])])) = (Error (lit ''No URL provided''), 400)"
    using analyze_errors [of "[(lit ''url'', JStr [])]" ?env] str by simp
  then have one: "analyze ?env (url_request '''') = (Error (lit ''No URL provided''), 400)"
    by (simp add: url_request_def lit_def)
  have "\<exists>data url art. url_request ''http://x'' = Inr data \<and> get_url data = Inr url \<and>
          truthy url \<and> fetch ?env url = Inr art \<and> art_text art = []"
    by (simp add: url_request_def get_url_def stub_env_def no_text_def lit_def)
  then have two: "analyze ?env (url_request ''http://x'') =
      (Error (lit ''Unable to fetch article content''), 400)"
    using analyze_errors [of _ ?env "url_request ''http://x''"] by blast
  have "analyze_try ?env (url_request ''http://down'') = Inl (lit ''timed out'')"
    by (simp add: analyze_try_def url_request_def get_url_def stub_env_def lit_def)
  then have "analyze ?env (url_request ''http://down'') =
      (Error (lit ''Failed to analyze article: '' @ lit ''timed out''), 500)"
    using analyze_errors [of _ ?env "url_request ''http://down''" "lit ''timed out''"] by blast
  then have three: "analyze ?env (url_request ''http://down'') =
      (Error (lit ''Failed to analyze article: timed out''), 500)"
    by (simp add: lit_def)
  from one two three show ?thesis by blast
qed

section \<open>Errors of the local handler\<close>

lemma local_messages_distinct:
  "lit ''sample_article.txt not found'' \<noteq> lit ''sample article is empty''"
  by (simp add: lit_def)

text \<open>
  Claim C5: \<open>analyze_local\<close> answers 400 with \<open>sample_article.txt not found\<close> iff
  the sample file is absent, 400 with \<open>sample article is empty\<close> iff the file was
  read and holds nothing but whitespace, and 200 with an analysis when the file was
  read, is not blank and the sentiment library returns; a failing read or a raising
  library gives 500 with the exception's message.
\<close>

theorem analyze_local_errors:
  "(analyze_local env file = (Error (lit ''sample_article.txt not found''), 400) \<longleftrightarrow>
      file = Absent) \<and>
   (analyze_local env file = (Error (lit ''sample article is empty''), 400) \<longleftrightarrow>
      (\<exists>t. file = Contents t \<and> (\<forall>c \<in> set t. isspace c))) \<and>
   (file = Contents t \<and> \<not> (\<forall>c \<in> set t. isspace c) \<and> textblob env t = Inr a \<longrightarrow>
      (\<exists>r. analyze_local env file = (Analysis r, 200))) \<and>
   (file = Unreadable e \<longrightarrow> analyze_local env file = (Error e, 500)) \<and>
   (file = Contents t \<and> \<not> (\<forall>c \<in> set t. isspace c) \<and> textblob env t = Inl e \<longrightarrow>
      analyze_local env file = (Error e, 500))"
proof -
  have blank: "\<And>u. strip u = [] \<longleftrightarrow> (\<forall>c \<in> set u. isspace c)"
    by (rule strip_empty_iff)
  have a: "analyze_local env file = (Error (lit ''sample_article.txt not found''), 400) \<longleftrightarrow>
      file = Absent"
    using local_messages_distinct
    by (auto simp add: analyze_local_def analyze_local_try_def
        split: sample_file.splits sum.splits if_splits)
  have b: "analyze_local env file = (Error (lit ''sample article is empty''), 400) \<longleftrightarrow>
      (\<exists>t. file = Contents t \<and> strip t = [])"
    using local_messages_distinct
    by (auto simp add: analyze_local_def analyze_local_try_def
        split: sample_file.splits sum.splits if_splits)
  have c: "file = Contents t \<and> strip t \<noteq> [] \<and> textblob env t = Inr a \<longrightarrow>
      (\<exists>r. analyze_local env file = (Analysis r, 200))"
    by (simp add: analyze_local_def analyze_local_try_def)
  have d: "file = Unreadable e \<longrightarrow> analyze_local env file = (Error e, 500)"
    by (simp add: analyze_local_def analyze_local_try_def)
  have e: "file = Contents t \<and> strip t \<noteq> [] \<and> textblob env t = Inl e \<longrightarrow>
      analyze_local env file = (Error e, 500)"
    by (simp add: analyze_local_def analyze_local_try_def)
  show ?thesis
    using a b c d e unfolding blank by blast
qed

theorem analyze_local_errors_witness:
  "analyze_local (stub_env good_news 0 0) Absent =
     (Error (lit ''sample_article.txt not found''), 400) \<and>
   analyze_local (stub_env good_news 0 0) (Contents [32, 10, 9]) =
     (Error (lit ''sample article is empty''), 400) \<and>
   (\<exists>r. analyze_local (stub_env good_news 0 0) (Contents (lit ''Good news today.'')) =
     (Analysis r, 200))"
proof -
  let ?env = "stub_env good_news 0 0"
  have one: "analyze_local ?env Absent = (Error (lit ''sample_article.txt not found''), 400)"
    using analyze_local_errors [of ?env Absent] by blast
  have "\<forall>c \<in> set [32, 10, 9 :: nat]. isspace c"
    by (simp add: isspace_def)
  then have two: "analyze_local ?env (Contents [32, 10, 9]) =
      (Error (lit ''sample article is empty''), 400)"
    using analyze_local_errors [of ?env "Contents [32, 10, 9]"] by blast
  have "\<not> (\<forall>c \<in> set (lit ''Good news today.''). isspace c)"
    by (simp add: lit_def isspace_def)
  moreover have "textblob ?env (lit ''Good news today.'') =
      Inr \<lparr> blob_polarity = 0, blob_subjectivity = 0 \<rparr>"
    by (simp add: stub_env_def)
  ultimately have three:
    "\<exists>r. analyze_local ?env (Contents (lit ''Good news today.'')) = (Analysis r, 200)"
    using analyze_local_errors [of ?env "Contents (lit ''Good news today.'')"
        "lit ''Good news today.''" "\<lparr> blob_polarity = 0, blob_subjectivity = 0 \<rparr>"]
    by blast
  from one two three show ?thesis by blast
qed

section \<open>Fields of the response\<close>

text \<open>
  Claim C6: on a successful \<open>analyze_local\<close> response for the sample text \<open>t\<close>, the
  summary is the first 300 characters of \<open>t\<close> followed by \<open>...\<close> if \<open>t\<close> has more
  than 300 characters, and \<open>t\<close> itself otherwise.
\<close>

theorem summary_truncation:
  assumes "analyze_local env (Contents t) = (Analysis r, 200)"
  shows "(300 < length t \<longrightarrow> summary r = take 300 t @ lit ''...'') \<and>
         (length t \<le> 300 \<longrightarrow> summary r = t)"
  using assms
  by (auto simp add: analyze_local_def analyze_local_try_def lit_def
      split: if_splits sum.splits)

theorem summary_truncation_witness:
  "(\<exists>r. analyze_local (stub_env good_news 0 0) (Contents (lit ''Good news today.'')) =
          (Analysis r, 200) \<and>
        summary r = lit ''Good news today.'') \<and>
   (\<exists>r. analyze_local (stub_env good_news 0 0) (Contents (replicate 301 120)) =
          (Analysis r, 200) \<and>
        summary r = replicate 300 120 @ lit ''...'')"
proof -
  let ?env = "stub_env good_news 0 0"
  obtain r1 where r1: "analyze_local ?env (Contents (lit ''Good news today.'')) = (Analysis r1, 200)"
    using strip_good_news
    by (simp add: analyze_local_def analyze_local_try_def stub_env_def)
  have "length (lit ''Good news today.'') \<le> 300"
    by (simp add: lit_def)
  then have s1: "summary r1 = lit ''Good news today.''"
    using summary_truncation [OF r1] by blast
  have "strip (replicate 301 120) \<noteq> []"
    by (simp add: strip_empty_iff isspace_def)
  then obtain r2 where r2: "analyze_local ?env (Contents (replicate 301 120)) = (Analysis r2, 200)"
    by (simp add: analyze_local_def analyze_local_try_def stub_env_def)
  have "300 < length (replicate 301 (120 :: nat))"
    by simp
  then have "summary r2 = take 300 (replicate 301 120) @ lit ''...''"
    using summary_truncation [OF r2] by blast
  then have s2: "summary r2 = replicate 300 120 @ lit ''...''"
    by simp
  from r1 s1 r2 s2 show ?thesis by blast
qed

text \<open>
  Claim C8: when the body is not parseable as JSON, \<open>get_json\<close> raises or returns
  \<open>None\<close>; in both cases \<open>analyze\<close> answers 500 with \<open>Failed to analyze article:\<close>
  and the exception's message, whereas a JSON object without a url key gets the 400
  \<open>No URL provided\<close>.
\<close>

theorem analyze_unparseable:
  "analyze env (Inl e) = (Error (lit ''Failed to analyze article: '' @ e), 500) \<and>
   analyze env (Inr JNull) =
     (Error (lit ''Failed to analyze article: '' @ attribute_error JNull), 500) \<and>
   (map_of kvs (lit ''url'') = None \<longrightarrow>
      analyze env (Inr (JObj kvs)) = (Error (lit ''No URL provided''), 400))"
  by (simp add: analyze_def analyze_try_def get_url_def)

theorem analyze_unparseable_witness:
  "analyze (stub_env good_news 0 0) (Inl (lit ''400 Bad Request'')) =
     (Error (lit ''Failed to analyze article: 400 Bad Request''), 500) \<and>
   analyze (stub_env good_news 0 0) (Inr (JObj [])) = (Error (lit ''No URL provided''), 400)"
proof -
  have "map_of ([] :: (pystr \<times> json) list) (lit ''url'') = None"
    by simp
  then show ?thesis
    using analyze_unparseable [of "stub_env good_news 0 0" "lit ''400 Bad Request''" "[]"]
    by (simp add: lit_def)
qed

text \<open>
  Claim C9: every 200 response of \<open>analyze_local\<close> has a word count of at least 1.
\<close>

theorem local_word_count_positive:
  assumes "analyze_local env file = (Analysis r, 200)"
  shows "1 \<le> word_count r"
proof -
  obtain t where t: "file = Contents t" "strip t \<noteq> []" "word_count r = word_count_of t"
    using assms
    by (auto simp add: analyze_local_def analyze_local_try_def
        split: sample_file.splits sum.splits if_splits)
  show ?thesis
    using word_count_pos [OF t(2)] t(3) by simp
qed

theorem local_word_count_positive_witness:
  "\<exists>r. analyze_local (stub_env good_news 0 0) (Contents (lit ''Good news today.'')) =
         (Analysis r, 200) \<and> 1 \<le> word_count r"
proof -
  obtain r where r:
    "analyze_local (stub_env good_news 0 0) (Contents (lit ''Good news today.'')) = (Analysis r, 200)"
    using strip_good_news
    by (simp add: analyze_local_def analyze_local_try_def stub_env_def)
  then show ?thesis
    using local_word_count_positive [OF r] by blast
qed

text \<open>
  Claim C10: in every successful \<open>analyze\<close> response the title is the extracted
  title if that is non-empty and \<open>N/A\<close> otherwise, and likewise the summary (and the
  author, from the list of authors).
\<close>

theorem title_summary_fallback:
  assumes "url_run env data art a r"
  shows "title r = (if art_title art \<noteq> [] then art_title art else lit ''N/A'') \<and>
         summary r = (if art_summary art \<noteq> [] then art_summary art else lit ''N/A'') \<and>
         author r = (if art_authors art \<noteq> [] then join (lit '', '') (art_authors art)
                     else lit ''N/A'')"
  using url_run_fields(2,3,4) [OF assms] by simp

theorem title_summary_fallback_witness:
  "(\<exists>r. url_run (stub_env untitled 0 0) (JObj [(lit ''url'', JStr (lit ''http://x''))]) untitled
          \<lparr> blob_polarity = 0, blob_subjectivity = 0 \<rparr> r \<and>
        title r = lit ''N/A'' \<and> summary r = lit ''N/A'' \<and> author r = lit ''N/A'') \<and>
   (\<exists>r. url_run (stub_env good_news 0 0) (JObj [(lit ''url'', JStr (lit ''http://x''))]) good_news
          \<lparr> blob_polarity = 0, blob_subjectivity = 0 \<rparr> r \<and>
        title r = lit ''Good news'' \<and> summary r = lit ''Good news.'' \<and>
        author r = lit ''A. Writer, B. Editor'')"
proof -
  have u: "lit ''http://x'' \<noteq> []" "lit ''http://x'' \<noteq> lit ''http://down''"
    by (simp_all add: lit_def)
  have "art_text untitled \<noteq> []"
    by (simp add: untitled_def lit_def)
  then obtain r1 where r1:
    "url_run (stub_env untitled 0 0) (JObj [(lit ''url'', JStr (lit ''http://x''))]) untitled
       \<lparr> blob_polarity = 0, blob_subjectivity = 0 \<rparr> r1"
    using stub_url_run u by blast
  have f1: "title r1 = lit ''N/A'' \<and> summary r1 = lit ''N/A'' \<and> author r1 = lit ''N/A''"
    using title_summary_fallback [OF r1] by (simp add: untitled_def)
  have "art_text good_news \<noteq> []"
    by (simp add: good_news_def lit_def)
  then obtain r2 where r2:
    "url_run (stub_env good_news 0 0) (JObj [(lit ''url'', JStr (lit ''http://x''))]) good_news
       \<lparr> blob_polarity = 0, blob_subjectivity = 0 \<rparr> r2"
    using stub_url_run u by blast
  have f2: "title r2 = lit ''Good news'' \<and> summary r2 = lit ''Good news.'' \<and>
      author r2 = lit ''A. Writer, B. Editor''"
    using title_summary_fallback [OF r2] by (simp add: good_news_def lit_def)
  from r1 f1 r2 f2 show ?thesis by blast
qed

end
